theory Spec2Isabelle
  imports Main "HOL-Library.Sublist"
begin

section \<open>The driver: \<^verbatim>\<open>capirca/aclgen.py\<close>\<close>

subsection \<open>Python strings and paths\<close>

text \<open>
  A Python \<^verbatim>\<open>str\<close> is a \<^typ>\<open>string\<close>. The functions below are the string and
  \<^verbatim>\<open>os.path\<close> (POSIX) operations that the driver calls.
\<close>

definition newline :: char where
  "newline = CHR 0x0A"

text \<open>\<^verbatim>\<open>text.split('\n')\<close>, written for any one-character separator: \<open>n\<close> separators
  give \<open>n + 1\<close> pieces, and the empty string gives one empty piece.\<close>

fun split :: "char \<Rightarrow> string \<Rightarrow> string list" where
  "split sep [] = [[]]"
| "split sep (c # cs) =
     (if c = sep then [] # split sep cs
      else (case split sep cs of
              [] \<Rightarrow> [[c]]
            | piece # pieces \<Rightarrow> (c # piece) # pieces))"

text \<open>\<^verbatim>\<open>x.startswith(p)\<close>, \<^verbatim>\<open>x.endswith(p)\<close> and the substring test \<^verbatim>\<open>p in x\<close>.\<close>

fun startswith :: "string \<Rightarrow> string \<Rightarrow> bool" where
  "startswith x [] = True"
| "startswith [] (p # ps) = False"
| "startswith (c # cs) (p # ps) = (c = p \<and> startswith cs ps)"

definition endswith :: "string \<Rightarrow> string \<Rightarrow> bool" where
  "endswith x p = startswith (rev x) (rev p)"

fun contains :: "string \<Rightarrow> string \<Rightarrow> bool" where
  "contains [] p = (p = [])"
| "contains (c # cs) p = (startswith (c # cs) p \<or> contains cs p)"

text \<open>\<^verbatim>\<open>sep.join(xs)\<close>.\<close>

fun join :: "string \<Rightarrow> string list \<Rightarrow> string" where
  "join sep [] = []"
| "join sep [x] = x"
| "join sep (x # y # ys) = x @ sep @ join sep (y # ys)"

text \<open>\<^verbatim>\<open>os.path.basename(p)\<close>: what follows the last \<^verbatim>\<open>/\<close>.\<close>

definition basename :: "string \<Rightarrow> string" where
  "basename p = rev (takeWhile (\<lambda>c. c \<noteq> CHR ''/'') (rev p))"

text \<open>
  \<^verbatim>\<open>os.path.splitext(p)[0]\<close>: the extension starts at the last dot of the last path component,
  unless that component has only dots in front of it (leading dots are not an extension).
\<close>

definition splitext_root :: "string \<Rightarrow> string" where
  "splitext_root p =
     (let comp = basename p;
          dir = take (length p - length comp) p;
          stem = rev (dropWhile (\<lambda>c. c \<noteq> CHR ''.'') (rev comp))
      in if stem \<noteq> [] \<and> (\<exists>c \<in> set (butlast stem). c \<noteq> CHR ''.'')
         then dir @ butlast stem
         else p)"

text \<open>\<^verbatim>\<open>os.path.join(a, b)\<close> for two components.\<close>

definition path_join :: "string \<Rightarrow> string \<Rightarrow> string" where
  "path_join a b =
     (if startswith b ''/'' then b
      else if a = [] \<or> endswith a ''/'' then a @ b
      else a @ ''/'' @ b)"

subsection \<open>Exceptions\<close>

text \<open>
  An exception of a class the driver does not define is carried as the text of its class
  (\<^verbatim>\<open>str(sys.exc_info()[0])\<close>) and the text of the instance (\<^verbatim>\<open>str(e)\<close>).
\<close>

record exc =
  exc_class :: string
  exc_text :: string

datatype exn =
    IOError string
  | UnicodeDecodeError string
  | ACLParserError string
  | ACLGeneratorError string
  | TypeError string
  | ValueError string
  | Foreign exc
  | Unmodelled string

text \<open>
  The \<^verbatim>\<open>%\<close> operator on a format string and a tuple of \<^verbatim>\<open>str\<close> arguments. The conversions
  \<^verbatim>\<open>%s\<close> and \<^verbatim>\<open>%%\<close> are modelled; any other conversion character gives \<open>Unmodelled\<close>
  (Python accepts some of them and raises on others).
\<close>

fun py_format :: "string \<Rightarrow> string list \<Rightarrow> exn + string" where
  "py_format [] args =
     (if args = [] then Inr []
      else Inl (TypeError ''not all arguments converted during string formatting''))"
| "py_format [c] args =
     (if c = CHR ''%'' then Inl (ValueError ''incomplete format'')
      else map_sum id ((#) c) (py_format [] args))"
| "py_format (c # d # ds) args =
     (if c \<noteq> CHR ''%'' then map_sum id ((#) c) (py_format (d # ds) args)
      else if d = CHR ''%'' then map_sum id ((#) CHR ''%'') (py_format ds args)
      else if d = CHR ''s'' then
        (case args of
           [] \<Rightarrow> Inl (TypeError ''not enough arguments for format string'')
         | a # rest \<Rightarrow> map_sum id ((@) a) (py_format ds rest))
      else Inl (Unmodelled ''format conversion''))"

subsection \<open>Logging\<close>

text \<open>The calls of \<^verbatim>\<open>absl.logging\<close> are recorded in order, with the formatted message.\<close>

datatype level = DEBUG | INFO | WARNING | FATAL

type_synonym log = "(level \<times> string) list"

subsection \<open>\<^verbatim>\<open>SkipLines\<close>\<close>

text \<open>
  \<^verbatim>\<open>skip_line_func\<close> defaults to \<^verbatim>\<open>False\<close>; a function is truthy. \<open>None\<close> is the falsy default.
\<close>

definition SkipLines :: "string list \<Rightarrow> (string \<Rightarrow> bool) option \<Rightarrow> string list" where
  "SkipLines text skip_line_func =
     (case skip_line_func of
        None \<Rightarrow> text
      | Some f \<Rightarrow> filter (\<lambda>x. \<not> f x) text)"

subsection \<open>\<^verbatim>\<open>FilesUpdated\<close>\<close>

text \<open>
  The disk is a map from file names to contents. A name outside its domain makes \<^verbatim>\<open>open\<close>
  raise \<^verbatim>\<open>IOError\<close>. The content of a file is the text that \<^verbatim>\<open>open(name).read()\<close> returns,
  or it cannot be decoded: then reading it in text mode raises \<^verbatim>\<open>UnicodeDecodeError\<close>, which
  is a \<^verbatim>\<open>ValueError\<close> and no \<^verbatim>\<open>IOError\<close>, while reading it in binary mode succeeds.
\<close>

datatype content = Text string | Undecodable

type_synonym disk = "string \<rightharpoonup> content"

definition p4_id :: string where
  "p4_id = filter (\<lambda>c. c \<noteq> CHR '' '') ''$I d:''"

definition p4_date :: string where
  "p4_date = filter (\<lambda>c. c \<noteq> CHR '' '') ''$Da te:''"

definition p4_revision :: string where
  "p4_revision = filter (\<lambda>c. c \<noteq> CHR '' '') ''$Rev ision:''"

definition p4_tags :: "string \<Rightarrow> bool" where
  "p4_tags x = (contains x p4_id \<or> contains x p4_date \<or> contains x p4_revision)"

text \<open>
  Only \<^verbatim>\<open>IOError\<close> is caught around the reading. With \<^verbatim>\<open>binary\<close> set the file is read as
  \<^verbatim>\<open>bytes\<close> and compared with \<^verbatim>\<open>new_text\<close>, which every caller passes as a \<^verbatim>\<open>str\<close>: in Python 3
  the two are never equal.
\<close>

definition FilesUpdated :: "disk \<Rightarrow> string \<Rightarrow> string \<Rightarrow> bool \<Rightarrow> exn + bool" where
  "FilesUpdated d file_name new_text binary =
     (case d file_name of
        None \<Rightarrow> Inr True
      | Some c \<Rightarrow>
          if binary then Inr True
          else
            (case c of
               Undecodable \<Rightarrow> Inl (UnicodeDecodeError file_name)
             | Text conf \<Rightarrow>
                 Inr (SkipLines (split newline conf) (Some p4_tags)
                        \<noteq> SkipLines (split newline new_text) (Some p4_tags))))"

subsection \<open>\<^verbatim>\<open>RenderACL\<close>\<close>

type_synonym file_tuple = "string \<times> string"

definition output_file_name :: "string \<Rightarrow> string \<Rightarrow> string \<Rightarrow> exn + string" where
  "output_file_name output_directory input_file acl_suffix =
     py_format (path_join output_directory ''%s%s'')
       [splitext_root (basename input_file), acl_suffix]"

text \<open>
  \<^verbatim>\<open>RenderACL\<close> appends to the shared list \<^verbatim>\<open>write_files\<close> and logs; the model returns the
  log lines and the list as it is afterwards, or the exception that leaves the file-name
  formatting or \<^verbatim>\<open>FilesUpdated\<close>.
\<close>

definition RenderACL ::
  "disk \<Rightarrow> string \<Rightarrow> string \<Rightarrow> string \<Rightarrow> string \<Rightarrow> file_tuple list \<Rightarrow> bool
     \<Rightarrow> exn + (log \<times> file_tuple list)" where
  "RenderACL d acl_text acl_suffix output_directory input_file write_files binary =
     (case output_file_name output_directory input_file acl_suffix of
        Inl e \<Rightarrow> Inl e
      | Inr output_file \<Rightarrow>
          (case FilesUpdated d output_file acl_text binary of
             Inl e \<Rightarrow> Inl e
           | Inr updated \<Rightarrow>
               if updated
               then Inr ([(INFO, ''file changed: '' @ output_file)],
                         write_files @ [(output_file, acl_text)])
               else Inr ([(DEBUG, ''file not changed: '' @ output_file)], write_files)))"

subsection \<open>What \<^verbatim>\<open>RenderFile\<close> calls in other modules\<close>

text \<open>
  \<^verbatim>\<open>policy.ParsePolicy\<close>, the \<^verbatim>\<open>Policy\<close> class, \<^verbatim>\<open>naming.Naming\<close> and the generator classes
  are defined in \<^verbatim>\<open>capirca.lib\<close>. The driver only distinguishes how a call ends, so each of
  them is a parameter whose result says which \<^verbatim>\<open>except\<close> clause of the driver it reaches.
\<close>

datatype 'pol parsed =
    Parsed 'pol
  | RaisesShadingError string
      \<comment> \<open>\<^verbatim>\<open>policy.ShadingError\<close>, with \<^verbatim>\<open>str(e)\<close>\<close>
  | RaisesParserError exc
      \<comment> \<open>any other \<^verbatim>\<open>policy.Error\<close>, or a \<^verbatim>\<open>naming.Error\<close>\<close>
  | RaisesOtherInParser exc
      \<comment> \<open>an exception of neither class\<close>

datatype generated =
    Generated string string
      \<comment> \<open>\<^verbatim>\<open>str(acl_obj)\<close> and \<^verbatim>\<open>acl_obj.SUFFIX\<close>\<close>
  | RaisesGeneratorError string
      \<comment> \<open>an instance of a class in the \<^verbatim>\<open>except\<close> tuple of \<^verbatim>\<open>RenderFile\<close>, with \<^verbatim>\<open>str(e)\<close>\<close>
  | RaisesOtherInGenerator exc
      \<comment> \<open>an exception of no class in that tuple\<close>

datatype 'defs named =
    Definitions 'defs
  | RaisesNoDefinitionsError
  | RaisesOtherInNaming exc

text \<open>The local variables of \<^verbatim>\<open>RenderFile\<close> that hold one copy of the policy per generator.\<close>

datatype target =
    JCL | MSMPC | SRX | ACL | ASACL | AACL | BACL | EACL | ATP | IPS | IPT | NSX | SPD
  | PCAP_ACCEPT | PCAP_DENY | PF | WIN_AFW | JSL | XACL | NFT | GCEFW | GCPHF | PALOALTO | GCA

record ('defs, 'pol) lib =
  Naming :: "string \<Rightarrow> 'defs named"
  ParsePolicy :: "string \<Rightarrow> 'defs \<Rightarrow> bool \<Rightarrow> string \<Rightarrow> bool \<Rightarrow> 'pol parsed"
    \<comment> \<open>\<^verbatim>\<open>conf\<close>, \<^verbatim>\<open>definitions\<close>, \<^verbatim>\<open>optimize\<close>, \<^verbatim>\<open>base_dir\<close>, \<^verbatim>\<open>shade_check\<close>\<close>
  header_platforms :: "'pol \<Rightarrow> string list list"
    \<comment> \<open>\<^verbatim>\<open>header.platforms\<close> for each header of \<^verbatim>\<open>pol.headers\<close>\<close>
  generator :: "target \<Rightarrow> 'pol \<Rightarrow> int \<Rightarrow> generated"
    \<comment> \<open>the constructor of the target's class on a deep copy of the policy, then \<^verbatim>\<open>str\<close>\<close>
  writable :: "string \<Rightarrow> bool"
    \<comment> \<open>whether creating the parent directory and opening the file for writing succeed\<close>

subsection \<open>\<^verbatim>\<open>RenderFile\<close>\<close>

text \<open>
  The \<^verbatim>\<open>try\<close> block of \<^verbatim>\<open>RenderFile\<close> in its order: the variable, the platform name that
  sets it, and what is put in front of the suffix.
\<close>

definition render_order :: "(target \<times> string \<times> string) list" where
  "render_order =
     [(JCL, ''juniper'', ''''), (MSMPC, ''msmpc'', ''''), (SRX, ''srx'', ''''),
      (ACL, ''cisco'', ''''), (ASACL, ''ciscoasa'', ''''), (AACL, ''aruba'', ''''),
      (BACL, ''brocade'', ''''), (EACL, ''arista'', ''''), (ATP, ''arista_tp'', ''''),
      (IPS, ''ipset'', ''''), (IPT, ''iptables'', ''''), (NSX, ''nsxv'', ''''),
      (SPD, ''speedway'', ''''), (PCAP_ACCEPT, ''pcap'', ''-accept''),
      (PCAP_DENY, ''pcap'', ''-deny''), (PF, ''packetfilter'', ''''),
      (WIN_AFW, ''windows_advfirewall'', ''''), (JSL, ''srxlo'', ''''),
      (XACL, ''ciscoxr'', ''''), (NFT, ''nftables'', ''''), (GCEFW, ''gce'', ''''),
      (GCPHF, ''gcp_hf'', ''''), (PALOALTO, ''paloalto'', ''''), (GCA, ''cloudarmor'', '''')]"

text \<open>
  The result of a call that appends to the shared list and may raise: what was logged, the
  list as the call leaves it, and the exception if one left the call.
\<close>

type_synonym outcome = "log \<times> file_tuple list \<times> exn option"

fun render_targets ::
  "('defs, 'pol) lib \<Rightarrow> disk \<Rightarrow> 'pol \<Rightarrow> int \<Rightarrow> string \<Rightarrow> string
     \<Rightarrow> (target \<times> string \<times> string) list \<Rightarrow> log \<Rightarrow> file_tuple list \<Rightarrow> outcome" where
  "render_targets L d pol exp_info output_directory input_file [] lg write_files =
     (lg, write_files, None)"
| "render_targets L d pol exp_info output_directory input_file ((t, platform, pre) # rest)
     lg write_files =
     (if platform \<notin> \<Union> (set (map set (header_platforms L pol))) then
        render_targets L d pol exp_info output_directory input_file rest lg write_files
      else
        (case generator L t pol exp_info of
           RaisesGeneratorError e \<Rightarrow>
             (lg, write_files,
              Some (ACLGeneratorError
                (''Error generating target ACL for '' @ input_file @ '':'' @ [newline] @ e)))
         | RaisesOtherInGenerator x \<Rightarrow> (lg, write_files, Some (Foreign x))
         | Generated acl_text acl_suffix \<Rightarrow>
             (case RenderACL d acl_text (pre @ acl_suffix) output_directory input_file
                     write_files False of
                Inl x \<Rightarrow> (lg, write_files, Some x)
              | Inr (lg', write_files') \<Rightarrow>
                  render_targets L d pol exp_info output_directory input_file rest
                    (lg @ lg') write_files')))"

definition RenderFile ::
  "('defs, 'pol) lib \<Rightarrow> disk \<Rightarrow> string \<Rightarrow> string \<Rightarrow> string \<Rightarrow> 'defs \<Rightarrow> int \<Rightarrow> bool \<Rightarrow> bool
     \<Rightarrow> file_tuple list \<Rightarrow> outcome" where
  "RenderFile L d base_directory input_file output_directory definitions exp_info optimize
     shade_check write_files =
     (let lg = [(DEBUG, ''rendering file: '' @ input_file @ '' into '' @ output_directory)] in
      case d input_file of
        None \<Rightarrow>
          (lg @ [(WARNING, ''bad file: '' @ [newline] @ input_file)], write_files,
           Some (IOError input_file))
      | Some Undecodable \<Rightarrow> (lg, write_files, Some (UnicodeDecodeError input_file))
      | Some (Text conf) \<Rightarrow>
          (let lg = lg @ [(DEBUG, ''opened and read '' @ input_file)] in
           case ParsePolicy L conf definitions optimize base_directory shade_check of
             RaisesShadingError e \<Rightarrow>
               (lg @ [(WARNING, ''shading errors for '' @ input_file @ '':'' @ [newline] @ e)],
                write_files, None)
           | RaisesParserError x \<Rightarrow>
               (lg, write_files,
                Some (ACLParserError
                  (''Error parsing policy file '' @ input_file @ '':'' @ [newline]
                     @ exc_class x @ exc_text x)))
           | RaisesOtherInParser x \<Rightarrow> (lg, write_files, Some (Foreign x))
           | Parsed pol \<Rightarrow>
               render_targets L d pol exp_info
                 (if \<not> endswith output_directory ''/'' then output_directory @ ''/''
                  else output_directory)
                 input_file render_order lg write_files))"

subsection \<open>\<^verbatim>\<open>DescendRecursively\<close>\<close>

text \<open>\<^verbatim>\<open>'%d' % n\<close> for a length, and \<^verbatim>\<open>s.rstrip('/')\<close>.\<close>

function decimal :: "nat \<Rightarrow> string" where
  "decimal n =
     (if n < 10 then [''0123456789'' ! n]
      else decimal (n div 10) @ [''0123456789'' ! (n mod 10)])"
  by pat_completeness auto
termination
  by (relation "measure id") auto

declare decimal.simps [simp del]

definition rstrip :: "char \<Rightarrow> string \<Rightarrow> string" where
  "rstrip c s = rev (dropWhile (\<lambda>x. x = c) (rev s))"

text \<open>
  What \<^verbatim>\<open>os.listdir\<close> and \<^verbatim>\<open>os.path.isdir\<close> see: a directory is the list of its entries in
  the order \<^verbatim>\<open>os.listdir\<close> returns them.
\<close>

datatype node = File | Dir "(string \<times> node) list"

text \<open>
  The loop over the directories of \<^verbatim>\<open>input_dirname\<close>, after both names have lost their
  trailing slashes. It returns the log lines and \<^verbatim>\<open>files\<close>, each entry as the pair of its
  \<^verbatim>\<open>in_file\<close> and \<^verbatim>\<open>out_dir\<close>.
\<close>

fun descend ::
  "(string \<times> node) list \<Rightarrow> string \<Rightarrow> string \<Rightarrow> string list \<Rightarrow> nat
     \<Rightarrow> log \<times> (string \<times> string) list" where
  "descend [] input_dirname output_dirname ignore_directories depth = ([], [])"
| "descend ((x, File) # rest) input_dirname output_dirname ignore_directories depth =
     descend rest input_dirname output_dirname ignore_directories depth"
| "descend ((curdir, Dir entries) # rest) input_dirname output_dirname ignore_directories depth =
     (let (lg, files) =
        (if curdir = ''pol'' then
           ([], map (\<lambda>input_file.
                       (path_join (path_join input_dirname ''pol'') input_file, output_dirname))
                  (filter (\<lambda>x. endswith x ''.pol'') (map fst entries)))
         else if curdir \<in> set ignore_directories then ([], [])
         else
           (let arrow = replicate (2 * depth) CHR ''-'' @ ''> '' @ input_dirname @ ''/'' @ curdir;
                (lg', files_found) =
                  descend entries
                    (rstrip CHR ''/'' (input_dirname @ ''/'' @ curdir))
                    (rstrip CHR ''/'' (output_dirname @ ''/'' @ curdir))
                    ignore_directories (depth + 1)
            in ([(WARNING, arrow)] @ lg'
                  @ [(WARNING, arrow @ '' ('' @ decimal (length files_found)
                        @ '' pol files found)'')],
                files_found)));
          (lg_rest, files_rest) =
            descend rest input_dirname output_dirname ignore_directories depth
      in (lg @ lg_rest, files @ files_rest))"

definition DescendRecursively ::
  "(string \<times> node) list \<Rightarrow> string \<Rightarrow> string \<Rightarrow> string list \<Rightarrow> nat
     \<Rightarrow> log \<times> (string \<times> string) list" where
  "DescendRecursively listing input_dirname output_dirname ignore_directories depth =
     descend listing (rstrip CHR ''/'' input_dirname) (rstrip CHR ''/'' output_dirname)
       ignore_directories depth"

subsection \<open>\<^verbatim>\<open>WriteFiles\<close>\<close>

definition WriteFile ::
  "('defs, 'pol) lib \<Rightarrow> disk \<Rightarrow> string \<Rightarrow> string \<Rightarrow> log \<times> disk \<times> exn option" where
  "WriteFile L d output_file file_string =
     (if writable L output_file
      then ([(INFO, ''writing file: '' @ output_file)], d(output_file \<mapsto> Text file_string),
            None)
      else ([(WARNING, ''error while writing file: '' @ output_file)], d,
            Some (IOError output_file)))"

fun write_each ::
  "('defs, 'pol) lib \<Rightarrow> disk \<Rightarrow> file_tuple list \<Rightarrow> log \<times> disk \<times> exn option" where
  "write_each L d [] = ([], d, None)"
| "write_each L d ((output_file, file_string) # rest) =
     (case WriteFile L d output_file file_string of
        (lg, d', Some e) \<Rightarrow> (lg, d', Some e)
      | (lg, d', None) \<Rightarrow>
          (case write_each L d' rest of (lg', r) \<Rightarrow> (lg @ lg', r)))"

definition WriteFiles ::
  "('defs, 'pol) lib \<Rightarrow> disk \<Rightarrow> file_tuple list \<Rightarrow> log \<times> disk \<times> exn option" where
  "WriteFiles L d write_files =
     (case write_each L d write_files of
        (lg, r) \<Rightarrow>
          ((if write_files \<noteq> []
            then [(INFO, ''writing '' @ decimal (length write_files) @ '' files to disk...'')]
            else [(INFO, ''no files changed, not writing to disk'')]) @ lg, r))"

subsection \<open>\<^verbatim>\<open>Run\<close>\<close>

text \<open>
  How \<^verbatim>\<open>Run\<close> ends: it returns, it leaves through \<^verbatim>\<open>sys.exit\<close> with a status, an exception
  leaves it, or \<^verbatim>\<open>logging.fatal\<close> ends the process.
\<close>

datatype ending = Returns | Exits nat | Raises exn | Aborts

text \<open>
  The pool runs one \<^verbatim>\<open>RenderFile\<close> per discovered policy; the tasks share only the list
  \<^verbatim>\<open>write_files\<close>, to which each appends. The model lets the tasks take their turns in the
  order of submission, and keeps for each what \<^verbatim>\<open>result.get()\<close> will raise.
\<close>

fun render_pool ::
  "('defs, 'pol) lib \<Rightarrow> disk \<Rightarrow> string \<Rightarrow> 'defs \<Rightarrow> int \<Rightarrow> bool \<Rightarrow> bool
     \<Rightarrow> (string \<times> string) list \<Rightarrow> log \<Rightarrow> file_tuple list
     \<Rightarrow> log \<times> file_tuple list \<times> exn option list" where
  "render_pool L d base_directory definitions exp_info optimize shade_check [] lg write_files =
     (lg, write_files, [])"
| "render_pool L d base_directory definitions exp_info optimize shade_check
     ((in_file, out_dir) # pols) lg write_files =
     (case RenderFile L d base_directory in_file out_dir definitions exp_info optimize
             shade_check write_files of
        (lg', write_files', result) \<Rightarrow>
          (case render_pool L d base_directory definitions exp_info optimize shade_check pols
                  (lg @ lg') write_files' of
             (lg'', write_files'', results) \<Rightarrow> (lg'', write_files'', result # results)))"

text \<open>
  The loop over \<^verbatim>\<open>results\<close>: the two error classes of the driver set \<^verbatim>\<open>with_errors\<close>, any
  other exception leaves the loop and \<^verbatim>\<open>Run\<close>.
\<close>

definition rendering_error :: "string \<Rightarrow> level \<times> string" where
  "rendering_error e =
     (WARNING, [newline, newline] @ ''error encountered in rendering process:'' @ [newline]
                 @ e @ [newline, newline])"

fun get_results :: "exn option list \<Rightarrow> bool \<Rightarrow> log \<times> (exn + bool)" where
  "get_results [] with_errors = ([], Inr with_errors)"
| "get_results (None # results) with_errors = get_results results with_errors"
| "get_results (Some (ACLParserError e) # results) with_errors =
     (case get_results results True of (lg, r) \<Rightarrow> (rendering_error e # lg, r))"
| "get_results (Some (ACLGeneratorError e) # results) with_errors =
     (case get_results results True of (lg, r) \<Rightarrow> (rendering_error e # lg, r))"
| "get_results (Some e # results) with_errors = ([], Inl e)"

text \<open>The end of \<^verbatim>\<open>Run\<close>, from \<^verbatim>\<open>WriteFiles\<close> on.\<close>

definition finish ::
  "('defs, 'pol) lib \<Rightarrow> disk \<Rightarrow> log \<Rightarrow> file_tuple list \<Rightarrow> bool \<Rightarrow> log \<times> disk \<times> ending" where
  "finish L d lg write_files with_errors =
     (case WriteFiles L d write_files of
        (lg', d', Some e) \<Rightarrow> (lg @ lg', d', Raises e)
      | (lg', d', None) \<Rightarrow>
          if with_errors then (lg @ lg' @ [(WARNING, ''done, with errors.'')], d', Exits 1)
          else (lg @ lg' @ [(INFO, ''done.'')], d', Returns))"

text \<open>
  \<^verbatim>\<open>Run\<close> without \<^verbatim>\<open>max_renderers\<close> and \<^verbatim>\<open>context\<close>, which size and create the pool.
  \<^verbatim>\<open>listing\<close> is what \<^verbatim>\<open>os.listdir\<close> finds under the base directory, \<open>None\<close> when it raises.
  \<^verbatim>\<open>policy_file\<close> is \<open>None\<close> for Python's \<^verbatim>\<open>None\<close>; the empty string is falsy as well.
\<close>

definition Run ::
  "('defs, 'pol) lib \<Rightarrow> disk \<Rightarrow> (string \<times> node) list option \<Rightarrow> string \<Rightarrow> string
     \<Rightarrow> string option \<Rightarrow> string \<Rightarrow> int \<Rightarrow> string list \<Rightarrow> bool \<Rightarrow> bool
     \<Rightarrow> log \<times> disk \<times> ending" where
  "Run L d listing base_directory definitions_directory policy_file output_directory exp_info
     ignore_directories optimize shade_check =
     (case Naming L definitions_directory of
        RaisesNoDefinitionsError \<Rightarrow>
          ([(FATAL, ''bad definitions directory: '' @ definitions_directory)], d, Aborts)
      | RaisesOtherInNaming x \<Rightarrow> ([], d, Raises (Foreign x))
      | Definitions definitions \<Rightarrow>
          if policy_file \<noteq> None \<and> policy_file \<noteq> Some [] then
            (case RenderFile L d base_directory (the policy_file) output_directory definitions
                    exp_info optimize shade_check [] of
               (lg, write_files, Some e) \<Rightarrow> ((INFO, ''rendering one file'') # lg, d, Raises e)
             | (lg, write_files, None) \<Rightarrow>
                 finish L d ((INFO, ''rendering one file'') # lg) write_files False)
          else
            (case listing of
               None \<Rightarrow> ([(INFO, ''finding policies...'')], d, Raises (IOError base_directory))
             | Some entries \<Rightarrow>
                 (case DescendRecursively entries base_directory output_directory
                         ignore_directories 1 of
                    (lg, pols) \<Rightarrow>
                      (case render_pool L d base_directory definitions exp_info optimize
                              shade_check pols ((INFO, ''finding policies...'') # lg) [] of
                         (lg', write_files, results) \<Rightarrow>
                           (case get_results results False of
                              (lg'', Inl e) \<Rightarrow> (lg' @ lg'', d, Raises e)
                            | (lg'', Inr with_errors) \<Rightarrow>
                                finish L d (lg' @ lg'') write_files with_errors)))))"

section \<open>The generator capability framework and the Palo Alto backend\<close>

text \<open>
  \<^verbatim>\<open>capirca/lib/policy.py\<close>, \<^verbatim>\<open>capirca/lib/aclgenerator.py\<close> and \<^verbatim>\<open>capirca/lib/paloaltofw.py\<close> are
  not among the sources; \<^verbatim>\<open>tests/lib/paloaltofw_test.py\<close> is. The definitions of this section
  follow sections 3, 4.5 and 9 of the specification, and take from the test file the two
  capability tables.
\<close>

subsection \<open>The policy model\<close>

text \<open>
  Modelled from the spec: the class \<^verbatim>\<open>Term\<close> of \<^verbatim>\<open>policy.py\<close> is missing. A term has a name,
  the stateless-reply flag, and its other fields as the parser collected them: the attribute
  name (\<^verbatim>\<open>action\<close>, \<^verbatim>\<open>option\<close>, \<^verbatim>\<open>logging\<close>, \<^verbatim>\<open>pan_application\<close>, ...) with the values of one
  \<^verbatim>\<open>field:: values\<close> line.
\<close>

record policy_term =
  name :: string
  stateless_reply :: bool
  term_fields :: "(string \<times> string list) list"

text \<open>
  Modelled from the spec: the attribute access \<^verbatim>\<open>term.<field>\<close> of the missing class \<^verbatim>\<open>Term\<close>;
  repeated lines of a list-valued field concatenate in order.
\<close>

definition attr :: "policy_term \<Rightarrow> string \<Rightarrow> string list" where
  "attr t f = concat (map snd (filter (\<lambda>(k, vs). k = f) (term_fields t)))"

text \<open>
  Modelled from the spec: the per-platform include and exclude lists of the missing class
  \<^verbatim>\<open>Term\<close> (sections 3 and 9). A term applies to a platform when its include list is empty or
  names the platform, and its exclude list does not name it; a term that does not apply is
  omitted, which is not an error.
\<close>

definition applies :: "string \<Rightarrow> policy_term \<Rightarrow> bool" where
  "applies platform t =
     ((attr t ''platform'' = [] \<or> platform \<in> set (attr t ''platform''))
      \<and> platform \<notin> set (attr t ''platform_exclude''))"

text \<open>
  Modelled from the spec: the class \<^verbatim>\<open>Header\<close> of \<^verbatim>\<open>policy.py\<close> is missing. A header declares
  targets, each a platform with its target parameters, and free-text comment lines.
\<close>

record header =
  targets :: "(string \<times> string list) list"
  comment :: "string list"

text \<open>Modelled from the spec: \<^verbatim>\<open>Header.platforms\<close> of the missing \<^verbatim>\<open>policy.py\<close>.\<close>

definition platforms :: "header \<Rightarrow> string list" where
  "platforms h = map fst (targets h)"

text \<open>
  Modelled from the spec: \<^verbatim>\<open>Header.FilterOptions\<close> of the missing \<^verbatim>\<open>policy.py\<close>, the target
  parameters that the header declares for a platform.
\<close>

definition FilterOptions :: "header \<Rightarrow> string \<Rightarrow> string list" where
  "FilterOptions h platform = (case map_of (targets h) platform of None \<Rightarrow> [] | Some opts \<Rightarrow> opts)"

text \<open>
  Modelled from the spec: \<^verbatim>\<open>Policy.filters\<close> of the missing \<^verbatim>\<open>policy.py\<close>, the ordered
  sequence of filter blocks.
\<close>

type_synonym policy = "(header \<times> policy_term list) list"

subsection \<open>The capability contract\<close>

text \<open>The two tables of \<^verbatim>\<open>paloaltofw_test.py\<close>, which \<^verbatim>\<open>testBuildTokens\<close> compares with what
  the backend declares.\<close>

definition SUPPORTED_TOKENS :: "string list" where
  "SUPPORTED_TOKENS =
     [''action'', ''comment'', ''destination_address'', ''destination_address_exclude'',
      ''destination_port'', ''expiration'', ''icmp_type'', ''logging'', ''name'', ''option'',
      ''owner'', ''platform'', ''protocol'', ''source_address'', ''source_address_exclude'',
      ''source_port'', ''stateless_reply'', ''timeout'', ''pan_application'', ''translated'']"

definition SUPPORTED_SUB_TOKENS :: "(string \<times> string list) list" where
  "SUPPORTED_SUB_TOKENS =
     [(''action'', [''accept'', ''deny'', ''reject'', ''reject-with-tcp-rst'']),
      (''option'', [''established'', ''tcp-established'']),
      (''icmp_type'',
       [''alternate-address'', ''certification-path-advertisement'',
        ''certification-path-solicitation'', ''conversion-error'',
        ''destination-unreachable'', ''echo-reply'', ''echo-request'', ''mobile-redirect'',
        ''home-agent-address-discovery-reply'', ''home-agent-address-discovery-request'',
        ''icmp-node-information-query'', ''icmp-node-information-response'',
        ''information-request'', ''inverse-neighbor-discovery-advertisement'',
        ''inverse-neighbor-discovery-solicitation'', ''mask-reply'', ''mask-request'',
        ''information-reply'', ''mobile-prefix-advertisement'', ''mobile-prefix-solicitation'',
        ''multicast-listener-done'', ''multicast-listener-query'',
        ''multicast-listener-report'', ''multicast-router-advertisement'',
        ''multicast-router-solicitation'', ''multicast-router-termination'',
        ''neighbor-advertisement'', ''neighbor-solicit'', ''packet-too-big'',
        ''parameter-problem'', ''redirect'', ''redirect-message'', ''router-advertisement'',
        ''router-renumbering'', ''router-solicit'', ''router-solicitation'', ''source-quench'',
        ''time-exceeded'', ''timestamp-reply'', ''timestamp-request'', ''unreachable'',
        ''version-2-multicast-listener-report''])]"

text \<open>Modelled from the spec: the two identifiers of a header that the missing
  \<^verbatim>\<open>paloaltofw.py\<close> limits in length, the source and the destination zone (section 4.5).\<close>

datatype side = Source | Destination

text \<open>
  Modelled from the spec: the errors of the missing \<^verbatim>\<open>aclgenerator.py\<close> and \<^verbatim>\<open>paloaltofw.py\<close>
  (sections 4.5 and 7). \<open>UnsupportedFilterError\<close> names the term, the field and the values;
  \<open>PaloAltoFWNameTooLongError\<close> identifies which identifier is too long, and the identifier;
  \<open>UnsupportedHeaderError\<close> carries the target parameters it cannot use.
\<close>

datatype error =
    UnsupportedFilterError string string "string list"
  | UnsupportedHeaderError "string list"
  | PaloAltoFWNameTooLongError side string

text \<open>
  Modelled from the spec: what the validation of the missing \<^verbatim>\<open>aclgenerator.py\<close> looks at. The
  fields a term sets are its name, the stateless-reply flag when it is set, and every field
  with a value.
\<close>

definition term_tokens :: "policy_term \<Rightarrow> (string \<times> string list) list" where
  "term_tokens t =
     (if name t \<noteq> [] then [(''name'', [name t])] else [])
     @ (if stateless_reply t then [(''stateless_reply'', [''True''])] else [])
     @ filter (\<lambda>(f, vs). vs \<noteq> []) (term_fields t)"

text \<open>
  Modelled from the spec: the validation of one term in the constructor of the missing
  \<^verbatim>\<open>aclgenerator.ACLGenerator\<close>. A set field that is no supported token fails, and so does a
  value that the sub-token entry of its field does not list.
\<close>

fun check_tokens ::
  "string list \<Rightarrow> (string \<times> string list) list \<Rightarrow> string \<Rightarrow> (string \<times> string list) list
     \<Rightarrow> error option" where
  "check_tokens supported_tokens supported_sub_tokens term_name [] = None"
| "check_tokens supported_tokens supported_sub_tokens term_name ((f, vs) # rest) =
     (if f \<notin> set supported_tokens then Some (UnsupportedFilterError term_name f vs)
      else
        (case map_of supported_sub_tokens f of
           None \<Rightarrow> check_tokens supported_tokens supported_sub_tokens term_name rest
         | Some allowed \<Rightarrow>
             (case filter (\<lambda>v. v \<notin> set allowed) vs of
                [] \<Rightarrow> check_tokens supported_tokens supported_sub_tokens term_name rest
              | v # others \<Rightarrow> Some (UnsupportedFilterError term_name f [v]))))"

text \<open>
  Modelled from the spec: the same validation over the terms of one filter block (section
  4.5); a term that does not apply to the platform is left out of it (section 9).
\<close>

fun check_terms ::
  "string \<Rightarrow> string list \<Rightarrow> (string \<times> string list) list \<Rightarrow> policy_term list
     \<Rightarrow> error option" where
  "check_terms platform supported_tokens supported_sub_tokens [] = None"
| "check_terms platform supported_tokens supported_sub_tokens (t # ts) =
     (if \<not> applies platform t
      then check_terms platform supported_tokens supported_sub_tokens ts
      else
        (case check_tokens supported_tokens supported_sub_tokens (name t) (term_tokens t) of
           Some e \<Rightarrow> Some e
         | None \<Rightarrow> check_terms platform supported_tokens supported_sub_tokens ts))"

text \<open>
  Modelled from the spec: the validation of the missing \<^verbatim>\<open>aclgenerator.ACLGenerator\<close> over a
  policy; only the filter blocks whose header declares the platform are for this backend.
\<close>

fun validate ::
  "string \<Rightarrow> string list \<Rightarrow> (string \<times> string list) list \<Rightarrow> policy \<Rightarrow> error option" where
  "validate platform supported_tokens supported_sub_tokens [] = None"
| "validate platform supported_tokens supported_sub_tokens ((h, ts) # rest) =
     (if platform \<notin> set (platforms h)
      then validate platform supported_tokens supported_sub_tokens rest
      else
        (case check_terms platform supported_tokens supported_sub_tokens ts of
           Some e \<Rightarrow> Some e
         | None \<Rightarrow> validate platform supported_tokens supported_sub_tokens rest))"

subsection \<open>The Palo Alto backend\<close>

text \<open>Modelled from the spec: the platform name of the missing \<^verbatim>\<open>paloaltofw.PaloAltoFW\<close>, as
  the headers of the test file declare it.\<close>

definition PLATFORM :: string where
  "PLATFORM = ''paloalto''"

text \<open>Modelled from the spec: the zone length limit of the missing \<^verbatim>\<open>paloaltofw.py\<close>, 31
  characters (section 8).\<close>

definition ZONE_MAX_LENGTH :: nat where
  "ZONE_MAX_LENGTH = 31"

text \<open>
  Modelled from the spec: one rule entry of the configuration that the missing
  \<^verbatim>\<open>paloaltofw.PaloAltoFW\<close> builds (section 4.5): the name of the term, the members of its
  source and destination zone, and the members of its tag (no member: the rule has no tag).
  The native texts of the action, the logging mode and the match fields are not modelled: the
  specification does not give them.
\<close>

record rule =
  rule_name :: string
  rule_from :: "string list"
  rule_to :: "string list"
  rule_tag :: "string list"

text \<open>
  Modelled from the spec: the configuration of the missing \<^verbatim>\<open>paloaltofw.PaloAltoFW\<close>: the tag
  entries, each a name with its \<^verbatim>\<open>comments\<close> text, and the rule entries in order.
\<close>

record config =
  tags :: "(string \<times> string) list"
  rules :: "rule list"


text \<open>
  Modelled from the spec: the zones that the missing \<^verbatim>\<open>paloaltofw.py\<close> derives from the target
  parameters of a header, written \<^verbatim>\<open>from-zone X to-zone Y\<close> in every header of the test file.
  Other target parameters give \<open>UnsupportedHeaderError\<close>.
\<close>

fun zones :: "string list \<Rightarrow> error + (string \<times> string)" where
  "zones (k1 # from_zone # k2 # to_zone # rest) =
     (if k1 = ''from-zone'' \<and> k2 = ''to-zone'' then Inr (from_zone, to_zone)
      else Inl (UnsupportedHeaderError (k1 # from_zone # k2 # to_zone # rest)))"
| "zones opts = Inl (UnsupportedHeaderError opts)"

text \<open>
  Modelled from the spec: the structural constraint of the missing \<^verbatim>\<open>paloaltofw.py\<close> on the
  zones of a header (sections 4.5 and 8): a zone of more than 31 characters fails with the
  error that identifies the side, the source side first.
\<close>

definition check_zones :: "header \<Rightarrow> error + (string \<times> string)" where
  "check_zones h =
     (case zones (FilterOptions h PLATFORM) of
        Inl e \<Rightarrow> Inl e
      | Inr (from_zone, to_zone) \<Rightarrow>
          if length from_zone > ZONE_MAX_LENGTH then
            Inl (PaloAltoFWNameTooLongError Source from_zone)
          else if length to_zone > ZONE_MAX_LENGTH then
            Inl (PaloAltoFWNameTooLongError Destination to_zone)
          else Inr (from_zone, to_zone))"


text \<open>
  Modelled from the spec: the terms that the missing \<^verbatim>\<open>paloaltofw.py\<close> leaves out of the
  rendering (section 4.5): a stateless reply, the two connection-state options, and (section 9)
  a term that does not apply to this backend.
\<close>

definition omitted :: "policy_term \<Rightarrow> bool" where
  "omitted t =
     (stateless_reply t
      \<or> ''established'' \<in> set (attr t ''option'')
      \<or> ''tcp-established'' \<in> set (attr t ''option'')
      \<or> \<not> applies PLATFORM t)"

text \<open>
  Modelled from the spec: a term that the missing \<^verbatim>\<open>paloaltofw.py\<close> cannot express
  (\<open>UnsupportedFilterError\<close>, section 7): it sets ICMP types while its protocols name no ICMP
  protocol. This is the term of \<^verbatim>\<open>testBadICMP\<close>; the terms of \<^verbatim>\<open>testIcmpTypes\<close> and
  \<^verbatim>\<open>testICMPProtocolOnly\<close> are rendered.
\<close>

definition icmp_type_without_icmp :: "policy_term \<Rightarrow> bool" where
  "icmp_type_without_icmp t =
     (attr t ''icmp_type'' \<noteq> []
      \<and> ''icmp'' \<notin> set (attr t ''protocol'') \<and> ''icmpv6'' \<notin> set (attr t ''protocol''))"

text \<open>
  Modelled from the spec: the tag table of one compilation in the missing \<^verbatim>\<open>paloaltofw.py\<close>
  (section 4.5). It maps a key to the tag name allocated for it, in the order of allocation.
\<close>

type_synonym tag_table = "((string list \<times> string) \<times> string) list"

text \<open>
  Modelled from the spec: the tag key of the missing \<^verbatim>\<open>paloaltofw.py\<close> (section 4.5), built
  from the target parameters of the header and the concatenation of its comment lines.
\<close>

definition tag_key :: "header \<Rightarrow> string list \<times> string" where
  "tag_key h = (FilterOptions h PLATFORM, join '' '' (comment h))"

text \<open>
  Modelled from the spec: the tag derivation of the missing \<^verbatim>\<open>paloaltofw.py\<close> (section 4.5).
  A header without comment has no tag; a key seen before reuses its tag; a new key allocates
  the next tag, named from the zones and the number of the tag as \<^verbatim>\<open>testHeaderComments\<close>
  expects.
\<close>

definition header_tag ::
  "tag_table \<Rightarrow> header \<Rightarrow> string \<Rightarrow> string \<Rightarrow> tag_table \<times> string option" where
  "header_tag table h from_zone to_zone =
     (if comment h = [] then (table, None)
      else
        (case map_of table (tag_key h) of
           Some tag \<Rightarrow> (table, Some tag)
         | None \<Rightarrow>
             (let tag = from_zone @ ''_'' @ to_zone @ ''_policy-comment-''
                          @ decimal (length table + 1)
              in (table @ [(tag_key h, tag)], Some tag))))"

text \<open>Modelled from the spec: the rule entry that the missing \<^verbatim>\<open>paloaltofw.py\<close> renders for
  one term of a filter block with the given zones and tag.\<close>

definition render_term :: "string \<Rightarrow> string \<Rightarrow> string option \<Rightarrow> policy_term \<Rightarrow> rule" where
  "render_term from_zone to_zone tag t =
     \<lparr> rule_name = name t,
       rule_from = [from_zone],
       rule_to = [to_zone],
       rule_tag = (case tag of None \<Rightarrow> [] | Some g \<Rightarrow> [g]) \<rparr>"

text \<open>
  Modelled from the spec: the term-by-term rendering of one filter block in the missing
  \<^verbatim>\<open>paloaltofw.py\<close> (section 4.5): in source order, a term that is left out renders nothing,
  a term that cannot be expressed fails, every other term renders one rule.
\<close>

fun render_terms ::
  "string \<Rightarrow> string \<Rightarrow> string option \<Rightarrow> policy_term list \<Rightarrow> error + rule list" where
  "render_terms from_zone to_zone tag [] = Inr []"
| "render_terms from_zone to_zone tag (t # ts) =
     (if omitted t then render_terms from_zone to_zone tag ts
      else if icmp_type_without_icmp t
      then Inl (UnsupportedFilterError (name t) ''icmp_type'' (attr t ''icmp_type''))
      else
        (case render_terms from_zone to_zone tag ts of
           Inl e \<Rightarrow> Inl e
         | Inr rs \<Rightarrow> Inr (render_term from_zone to_zone tag t # rs)))"

text \<open>
  Modelled from the spec: the translation of the missing \<^verbatim>\<open>paloaltofw.py\<close> over the filter
  blocks in order: a block for another platform is skipped; the zones are checked; the tag is
  derived; the terms of the block are rendered.
\<close>

fun TranslatePolicy ::
  "policy \<Rightarrow> tag_table \<Rightarrow> rule list \<Rightarrow> error + (tag_table \<times> rule list)" where
  "TranslatePolicy [] table rs = Inr (table, rs)"
| "TranslatePolicy ((h, ts) # rest) table rs =
     (if PLATFORM \<notin> set (platforms h) then TranslatePolicy rest table rs
      else
        (case check_zones h of
           Inl e \<Rightarrow> Inl e
         | Inr (from_zone, to_zone) \<Rightarrow>
             (case header_tag table h from_zone to_zone of
                (table', tag) \<Rightarrow>
                  (case render_terms from_zone to_zone tag ts of
                     Inl e \<Rightarrow> Inl e
                   | Inr rendered \<Rightarrow> TranslatePolicy rest table' (rs @ rendered)))))"

text \<open>
  Modelled from the spec: the constructor of the missing \<^verbatim>\<open>paloaltofw.PaloAltoFW\<close>: the
  validation of the terms of its filter blocks against the capability tables, then the
  translation. \<^verbatim>\<open>exp_info\<close> only concerns expiry notices, which are not modelled.
\<close>

definition PaloAltoFW :: "policy \<Rightarrow> int \<Rightarrow> error + config" where
  "PaloAltoFW pol exp_info =
     (case validate PLATFORM SUPPORTED_TOKENS SUPPORTED_SUB_TOKENS pol of
        Some e \<Rightarrow> Inl e
      | None \<Rightarrow>
          (case TranslatePolicy pol [] [] of
             Inl e \<Rightarrow> Inl e
           | Inr (table, rs) \<Rightarrow>
               Inr \<lparr> tags = map (\<lambda>((opts, text), tag). (tag, text)) table, rules = rs \<rparr>))"

subsection \<open>The policies of \<^verbatim>\<open>paloaltofw_test.py\<close>\<close>

text \<open>
  The policy texts of the test file as the parser hands them to the backend: a header with
  its target and comment lines, a term with its name and the values of each
  \<^verbatim>\<open>field:: values\<close> line (the attribute name has \<^verbatim>\<open>_\<close> where the policy text has \<^verbatim>\<open>-\<close>).
\<close>

definition GOOD_HEADER_1 :: header where
  "GOOD_HEADER_1 =
     \<lparr> targets = [(''paloalto'', [''from-zone'', ''trust'', ''to-zone'', ''untrust''])],
       comment = [''This is a test acl with a comment''] \<rparr>"




definition ICMP_TYPE_TERM_1 :: policy_term where
  "ICMP_TYPE_TERM_1 =
     \<lparr> name = ''test-icmp'', stateless_reply = False,
       term_fields = [(''protocol'', [''icmp'']),
                      (''icmp_type'', [''echo-request'', ''echo-reply'']),
                      (''action'', [''accept''])] \<rparr>"

definition BAD_ICMP_TERM_1 :: policy_term where
  "BAD_ICMP_TERM_1 =
     \<lparr> name = ''test-icmp-type'', stateless_reply = False,
       term_fields = [(''icmp_type'', [''echo-request'', ''echo-reply'']),
                      (''action'', [''accept''])] \<rparr>"

definition ICMP_ONLY_TERM_1 :: policy_term where
  "ICMP_ONLY_TERM_1 =
     \<lparr> name = ''test-icmp-only'', stateless_reply = False,
       term_fields = [(''protocol'', [''icmp'']), (''action'', [''accept''])] \<rparr>"









section \<open>Notions of the statements\<close>

subsection \<open>The driver\<close>

text \<open>
  The lines of a text, in the words of the description of \<^verbatim>\<open>FilesUpdated\<close>: \<open>ls\<close> are the
  lines of \<open>text\<close> when there is at least one line, no line holds a line feed, and the lines
  with one line feed between each two of them make up the text.
\<close>

definition text_lines :: "string \<Rightarrow> string list \<Rightarrow> bool" where
  "text_lines text ls =
     (ls \<noteq> [] \<and> (\<forall>l \<in> set ls. CHR 0x0A \<notin> set l)
      \<and> text = foldr (\<lambda>l rest. l @ CHR 0x0A # rest) (butlast ls) (last ls))"

text \<open>
  A line carries a p4 tag when it contains \<^verbatim>\<open>$Id:\<close>, \<^verbatim>\<open>$Date:\<close> or \<^verbatim>\<open>$Revision:\<close>; the
  untagged lines are the others, in order.
\<close>

definition tagged :: "string \<Rightarrow> bool" where
  "tagged line =
     (sublist ''$Id:'' line \<or> sublist ''$Date:'' line \<or> sublist ''$Revision:'' line)"

definition untagged :: "string list \<Rightarrow> string list" where
  "untagged ls = filter (\<lambda>line. \<not> tagged line) ls"

text \<open>One policy file compiled on its own, with nothing scheduled before it.\<close>

definition file_result ::
  "('defs, 'pol) lib \<Rightarrow> disk \<Rightarrow> string \<Rightarrow> 'defs \<Rightarrow> int \<Rightarrow> bool \<Rightarrow> bool \<Rightarrow> string \<times> string
     \<Rightarrow> outcome" where
  "file_result L d base_directory definitions exp_info optimize shade_check pol =
     RenderFile L d base_directory (fst pol) (snd pol) definitions exp_info optimize
       shade_check []"

definition scheduled :: "outcome \<Rightarrow> file_tuple list" where
  "scheduled r = fst (snd r)"

definition raised :: "outcome \<Rightarrow> exn option" where
  "raised r = snd (snd r)"



text \<open>
  An instance of the other modules for the examples: the parser finds a shaded term in a
  text that starts with \<^verbatim>\<open>shaded\<close> when shade-checking is requested, rejects a text that
  starts with \<^verbatim>\<open>broken\<close>, and otherwise returns a policy for the Palo Alto target; the
  generator renders any policy; every file can be written.
\<close>

definition example_lib :: "(unit, string) lib" where
  "example_lib =
     \<lparr> Naming = (\<lambda>directory. Definitions ()),
       ParsePolicy = (\<lambda>conf definitions optimize base_dir shade_check.
          if shade_check \<and> startswith conf ''shaded''
          then RaisesShadingError ''term-2 is shaded by term-1''
          else if startswith conf ''broken''
          then RaisesParserError \<lparr> exc_class = ''policy.ParseError'', exc_text = ''line 1'' \<rparr>
          else Parsed conf),
       header_platforms = (\<lambda>pol. [[''paloalto'']]),
       generator = (\<lambda>t pol exp_info. Generated (''<config>'' @ pol) ''.xml''),
       writable = (\<lambda>output_file. True) \<rparr>"

text \<open>
  A disk for the examples: three policy files, an output file of an earlier run, and an output
  file that is no text in the encoding of the run.
\<close>

definition example_disk :: disk where
  "example_disk =
     [''./policies/pol/shaded.pol'' \<mapsto> Text ''shaded term'',
      ''./policies/pol/broken.pol'' \<mapsto> Text ''broken term'',
      ''./policies/pol/good.pol'' \<mapsto> Text ''good term'',
      ''./out/good.xml'' \<mapsto> Text ''<config>old term'',
      ''./out/latin.xml'' \<mapsto> Undecodable]"

definition shaded_listing :: "(string \<times> node) list" where
  "shaded_listing = [(''pol'', Dir [(''shaded.pol'', File)])]"


subsection \<open>The capability contract\<close>







section \<open>The driver: what is proved\<close>

subsection \<open>Scheduling a file for writing\<close>

lemma startswith_prefix: "startswith x p \<longleftrightarrow> prefix p x"
  by (induction x p rule: startswith.induct) auto

lemma contains_sublist: "contains x p \<longleftrightarrow> sublist p x"
  by (induction x) (auto simp: sublist_Cons_right startswith_prefix)

lemma p4_tags_tagged: "p4_tags x \<longleftrightarrow> tagged x"
  by (simp add: p4_tags_def p4_id_def p4_date_def p4_revision_def contains_sublist tagged_def)

lemma SkipLines_p4_tags: "SkipLines ls (Some p4_tags) = untagged ls"
  by (simp add: SkipLines_def untagged_def p4_tags_tagged)

lemma split_line: "sep \<notin> set l \<Longrightarrow> split sep l = [l]"
  by (induction l) auto

lemma split_line_feed: "sep \<notin> set l \<Longrightarrow> split sep (l @ sep # rest) = l # split sep rest"
  by (induction l) auto

lemma split_lines:
  assumes "ls \<noteq> []" and "\<forall>l \<in> set ls. sep \<notin> set l"
  shows "split sep (foldr (\<lambda>l rest. l @ sep # rest) (butlast ls) (last ls)) = ls"
  using assms
proof (induction ls rule: list_nonempty_induct)
  case (single l)
  then show ?case by (simp add: split_line)
next
  case (cons l ls)
  then show ?case by (simp add: split_line_feed)
qed

lemma split_text_lines: "text_lines text ls \<Longrightarrow> split newline text = ls"
  unfolding text_lines_def newline_def by (auto intro: split_lines)

text \<open>
  Claim C7, as amended. \<^verbatim>\<open>FilesUpdated\<close> reports a change when the existing file cannot be
  opened. For a file that holds a text, and non-binary output, it reports a change exactly when
  the lines of the old and of the new text differ after every line with a p4 \<^verbatim>\<open>$Id:\<close>,
  \<^verbatim>\<open>$Date:\<close> or \<^verbatim>\<open>$Revision:\<close> tag is removed. For a file that is there and cannot be decoded
  it does not return: it raises \<^verbatim>\<open>UnicodeDecodeError\<close>. \<^verbatim>\<open>RenderACL\<close> appends the output file
  to the write list if \<^verbatim>\<open>FilesUpdated\<close> reports a change, leaves the list as it is if it
  reports none, and raises what \<^verbatim>\<open>FilesUpdated\<close> raises.
\<close>

theorem RenderACL_schedules_iff_FilesUpdated:
  "(disk_a name_a = None \<longrightarrow> FilesUpdated disk_a name_a text_a binary_a = Inr True)
   \<and> (disk_b name_b = Some (Text old_b) \<and> text_lines old_b old_lines \<and> text_lines new_b new_lines \<longrightarrow>
        FilesUpdated disk_b name_b new_b False = Inr (untagged old_lines \<noteq> untagged new_lines))
   \<and> (disk_c name_c = Some Undecodable \<longrightarrow>
        FilesUpdated disk_c name_c text_c False = Inl (UnicodeDecodeError name_c))
   \<and> (output_file_name output_directory input_file acl_suffix = Inr output_file \<longrightarrow>
        (case FilesUpdated d output_file acl_text binary of
           Inl e \<Rightarrow>
             RenderACL d acl_text acl_suffix output_directory input_file write_files binary
             = Inl e
         | Inr updated \<Rightarrow>
             (\<exists>lg. RenderACL d acl_text acl_suffix output_directory input_file write_files binary
                    = Inr (lg, if updated then write_files @ [(output_file, acl_text)]
                               else write_files))))"
proof (intro conjI impI)
  show "FilesUpdated disk_a name_a text_a binary_a = Inr True" if "disk_a name_a = None"
    using that by (simp add: FilesUpdated_def)
next
  assume "disk_b name_b = Some (Text old_b) \<and> text_lines old_b old_lines \<and> text_lines new_b new_lines"
  then have "disk_b name_b = Some (Text old_b)" and "split newline old_b = old_lines"
    and "split newline new_b = new_lines"
    by (simp_all add: split_text_lines)
  then show "FilesUpdated disk_b name_b new_b False
             = Inr (untagged old_lines \<noteq> untagged new_lines)"
    by (simp add: FilesUpdated_def SkipLines_p4_tags)
next
  show "FilesUpdated disk_c name_c text_c False = Inl (UnicodeDecodeError name_c)"
    if "disk_c name_c = Some Undecodable"
    using that by (simp add: FilesUpdated_def)
next
  assume "output_file_name output_directory input_file acl_suffix = Inr output_file"
  then show "case FilesUpdated d output_file acl_text binary of
           Inl e \<Rightarrow>
             RenderACL d acl_text acl_suffix output_directory input_file write_files binary
             = Inl e
         | Inr updated \<Rightarrow>
             (\<exists>lg. RenderACL d acl_text acl_suffix output_directory input_file write_files binary
                    = Inr (lg, if updated then write_files @ [(output_file, acl_text)]
                               else write_files))"
    by (simp add: RenderACL_def split: sum.splits)
qed

theorem RenderACL_schedules_iff_FilesUpdated_witness:
  "FilesUpdated Map.empty ''./out/new.xml'' ''<config>good term'' False = Inr True
   \<and> text_lines (''a'' @ [CHR 0x0A] @ ''# $Date: 1$'' @ [CHR 0x0A] @ ''b'')
        [''a'', ''# $Date: 1$'', ''b'']
   \<and> text_lines (''a'' @ [CHR 0x0A] @ ''b'' @ [CHR 0x0A] @ ''# $Id: 2$'')
        [''a'', ''b'', ''# $Id: 2$'']
   \<and> text_lines (''a'' @ [CHR 0x0A] @ ''# $Id: 2$'' @ [CHR 0x0A] @ ''c'')
        [''a'', ''# $Id: 2$'', ''c'']
   \<and> text_lines ''ab'' [''ab'']
   \<and> FilesUpdated
        [''./out/a.acl'' \<mapsto> Text (''a'' @ [CHR 0x0A] @ ''# $Date: 1$'' @ [CHR 0x0A] @ ''b'')]
        ''./out/a.acl'' (''a'' @ [CHR 0x0A] @ ''b'' @ [CHR 0x0A] @ ''# $Id: 2$'') False
      = Inr False
   \<and> FilesUpdated
        [''./out/a.acl'' \<mapsto> Text (''a'' @ [CHR 0x0A] @ ''# $Date: 1$'' @ [CHR 0x0A] @ ''b'')]
        ''./out/a.acl'' (''a'' @ [CHR 0x0A] @ ''# $Id: 2$'' @ [CHR 0x0A] @ ''c'') False
      = Inr True
   \<and> FilesUpdated
        [''./out/a.acl'' \<mapsto> Text (''a'' @ [CHR 0x0A] @ ''# $Date: 1$'' @ [CHR 0x0A] @ ''b'')]
        ''./out/a.acl'' ''ab'' False
      = Inr True
   \<and> FilesUpdated example_disk ''./out/latin.xml'' ''<config>good term'' False
      = Inl (UnicodeDecodeError ''./out/latin.xml'')
   \<and> output_file_name ''./out/'' ''./policies/pol/good.pol'' ''.xml'' = Inr ''./out/good.xml''
   \<and> (\<exists>lg. RenderACL example_disk (''<config>old term'' @ [CHR 0x0A] @ ''<!-- $Id:$ -->'')
              ''.xml'' ''./out/'' ''./policies/pol/good.pol'' [] False = Inr (lg, []))
   \<and> (\<exists>lg. RenderACL example_disk ''<config>good term'' ''.xml'' ''./out/''
              ''./policies/pol/good.pol'' [] False
            = Inr (lg, [(''./out/good.xml'', ''<config>good term'')]))
   \<and> RenderACL example_disk ''<config>good term'' ''.xml'' ''./out/''
        ''./policies/pol/latin.pol'' [] False
      = Inl (UnicodeDecodeError ''./out/latin.xml'')"
proof -
  let ?old = "''a'' @ [CHR 0x0A] @ ''# $Date: 1$'' @ [CHR 0x0A] @ ''b''"
  let ?same = "''a'' @ [CHR 0x0A] @ ''b'' @ [CHR 0x0A] @ ''# $Id: 2$''"
  let ?other = "''a'' @ [CHR 0x0A] @ ''# $Id: 2$'' @ [CHR 0x0A] @ ''c''"
  let ?d = "[''./out/a.acl'' \<mapsto> Text ?old]"
  note T = RenderACL_schedules_iff_FilesUpdated
  have tags: "tagged ''# $Date: 1$''" "tagged ''# $Id: 2$''" "tagged ''<!-- $Id:$ -->''"
    "\<not> tagged ''a''" "\<not> tagged ''b''" "\<not> tagged ''c''" "\<not> tagged ''ab''"
    "\<not> tagged ''<config>old term''" "\<not> tagged ''<config>good term''"
    unfolding p4_tags_tagged [symmetric]
    by (simp_all add: p4_tags_def p4_id_def p4_date_def p4_revision_def)
  have l_old: "text_lines ?old [''a'', ''# $Date: 1$'', ''b'']"
    by (simp add: text_lines_def)
  have l_same: "text_lines ?same [''a'', ''b'', ''# $Id: 2$'']"
    by (simp add: text_lines_def)
  have l_other: "text_lines ?other [''a'', ''# $Id: 2$'', ''c'']"
    by (simp add: text_lines_def)
  have l_ab: "text_lines ''ab'' [''ab'']"
    by (simp add: text_lines_def)
  have l_cfg: "text_lines ''<config>old term'' [''<config>old term'']"
    "text_lines ''<config>good term'' [''<config>good term'']"
    "text_lines (''<config>old term'' @ [CHR 0x0A] @ ''<!-- $Id:$ -->'')
       [''<config>old term'', ''<!-- $Id:$ -->'']"
    by (simp_all add: text_lines_def)
  have there: "?d ''./out/a.acl'' = Some (Text ?old)"
    by simp
  have good: "example_disk ''./out/good.xml'' = Some (Text ''<config>old term'')"
    by (simp add: example_disk_def)
  have latin: "example_disk ''./out/latin.xml'' = Some Undecodable"
    by (simp add: example_disk_def)
  have name: "output_file_name ''./out/'' ''./policies/pol/good.pol'' ''.xml''
              = Inr ''./out/good.xml''"
    by (simp add: output_file_name_def path_join_def endswith_def basename_def
          splitext_root_def)
  have name_latin: "output_file_name ''./out/'' ''./policies/pol/latin.pol'' ''.xml''
              = Inr ''./out/latin.xml''"
    by (simp add: output_file_name_def path_join_def endswith_def basename_def
          splitext_root_def)
  have 1: "FilesUpdated Map.empty ''./out/new.xml'' ''<config>good term'' False = Inr True"
    using conjunct1 [OF T [where disk_a = Map.empty and name_a = "''./out/new.xml''"]]
    by simp
  have 2: "FilesUpdated ?d ''./out/a.acl'' ?same False = Inr False"
    using conjunct1 [OF conjunct2 [OF T [where disk_b = ?d and name_b = "''./out/a.acl''"
            and old_b = ?old and new_b = ?same
            and old_lines = "[''a'', ''# $Date: 1$'', ''b'']"
            and new_lines = "[''a'', ''b'', ''# $Id: 2$'']"]]]
      there l_old l_same
    by (simp add: untagged_def tags del: fun_upd_apply append.simps)
  have 3: "FilesUpdated ?d ''./out/a.acl'' ?other False = Inr True"
    using conjunct1 [OF conjunct2 [OF T [where disk_b = ?d and name_b = "''./out/a.acl''"
            and old_b = ?old and new_b = ?other
            and old_lines = "[''a'', ''# $Date: 1$'', ''b'']"
            and new_lines = "[''a'', ''# $Id: 2$'', ''c'']"]]]
      there l_old l_other
    by (simp add: untagged_def tags del: fun_upd_apply append.simps)
  have 4: "FilesUpdated ?d ''./out/a.acl'' ''ab'' False = Inr True"
    using conjunct1 [OF conjunct2 [OF T [where disk_b = ?d and name_b = "''./out/a.acl''"
            and old_b = ?old and new_b = "''ab''"
            and old_lines = "[''a'', ''# $Date: 1$'', ''b'']"
            and new_lines = "[''ab'']"]]]
      there l_old l_ab
    by (simp add: untagged_def tags del: fun_upd_apply append.simps)
  have 5: "FilesUpdated example_disk ''./out/latin.xml'' ''<config>good term'' False
           = Inl (UnicodeDecodeError ''./out/latin.xml'')"
    using conjunct1 [OF conjunct2 [OF conjunct2 [OF T [where disk_c = example_disk
            and name_c = "''./out/latin.xml''"]]]] latin
    by simp
  have same: "FilesUpdated example_disk ''./out/good.xml''
                (''<config>old term'' @ [CHR 0x0A] @ ''<!-- $Id:$ -->'') False = Inr False"
    using conjunct1 [OF conjunct2 [OF T [where disk_b = example_disk
            and name_b = "''./out/good.xml''" and old_b = "''<config>old term''"
            and new_b = "''<config>old term'' @ [CHR 0x0A] @ ''<!-- $Id:$ -->''"
            and old_lines = "[''<config>old term'']"
            and new_lines = "[''<config>old term'', ''<!-- $Id:$ -->'']"]]]
      good l_cfg
    by (simp add: untagged_def tags del: append.simps)
  have changed: "FilesUpdated example_disk ''./out/good.xml'' ''<config>good term'' False
                 = Inr True"
    using conjunct1 [OF conjunct2 [OF T [where disk_b = example_disk
            and name_b = "''./out/good.xml''" and old_b = "''<config>old term''"
            and new_b = "''<config>good term''"
            and old_lines = "[''<config>old term'']"
            and new_lines = "[''<config>good term'']"]]]
      good l_cfg
    by (simp add: untagged_def tags)
  have 6: "\<exists>lg. RenderACL example_disk (''<config>old term'' @ [CHR 0x0A] @ ''<!-- $Id:$ -->'')
              ''.xml'' ''./out/'' ''./policies/pol/good.pol'' [] False = Inr (lg, [])"
    using mp [OF conjunct2 [OF conjunct2 [OF conjunct2 [OF T [where output_directory = "''./out/''"
            and input_file = "''./policies/pol/good.pol''" and acl_suffix = "''.xml''"
            and output_file = "''./out/good.xml''" and d = example_disk
            and acl_text = "''<config>old term'' @ [CHR 0x0A] @ ''<!-- $Id:$ -->''"
            and write_files = "[]" and binary = False]]]] name]
    by (simp add: same del: append.simps)
  have 7: "\<exists>lg. RenderACL example_disk ''<config>good term'' ''.xml'' ''./out/''
              ''./policies/pol/good.pol'' [] False
            = Inr (lg, [(''./out/good.xml'', ''<config>good term'')])"
    using mp [OF conjunct2 [OF conjunct2 [OF conjunct2 [OF T [where output_directory = "''./out/''"
            and input_file = "''./policies/pol/good.pol''" and acl_suffix = "''.xml''"
            and output_file = "''./out/good.xml''" and d = example_disk
            and acl_text = "''<config>good term''"
            and write_files = "[]" and binary = False]]]] name]
    by (simp add: changed)
  have 8: "RenderACL example_disk ''<config>good term'' ''.xml'' ''./out/''
        ''./policies/pol/latin.pol'' [] False
      = Inl (UnicodeDecodeError ''./out/latin.xml'')"
    using mp [OF conjunct2 [OF conjunct2 [OF conjunct2 [OF T [where output_directory = "''./out/''"
            and input_file = "''./policies/pol/latin.pol''" and acl_suffix = "''.xml''"
            and output_file = "''./out/latin.xml''" and d = example_disk
            and acl_text = "''<config>good term''"
            and write_files = "[]" and binary = False]]]] name_latin]
    by (simp add: 5)
  from 1 l_old l_same l_other l_ab 2 3 4 5 name 6 7 8 show ?thesis
    by (intro conjI)
qed

text \<open>
  Claim C7 as stated fails: an output file that is there and cannot be decoded cannot be
  read, yet \<^verbatim>\<open>FilesUpdated\<close> does not return \<^verbatim>\<open>True\<close> for it: the \<^verbatim>\<open>UnicodeDecodeError\<close> of
  the reading is no \<^verbatim>\<open>IOError\<close>, leaves \<^verbatim>\<open>FilesUpdated\<close> and \<^verbatim>\<open>RenderACL\<close>, and the file is not
  scheduled.
\<close>

theorem FilesUpdated_unreadable_counterexample:
  "example_disk ''./out/latin.xml'' = Some Undecodable
   \<and> FilesUpdated example_disk ''./out/latin.xml'' ''<config>good term'' False \<noteq> Inr True
   \<and> FilesUpdated example_disk ''./out/latin.xml'' ''<config>good term'' False
      = Inl (UnicodeDecodeError ''./out/latin.xml'')
   \<and> RenderACL example_disk ''<config>good term'' ''.xml'' ''./out/''
        ''./policies/pol/latin.pol'' [] False
      = Inl (UnicodeDecodeError ''./out/latin.xml'')"
  by (simp add: example_disk_def FilesUpdated_def RenderACL_def output_file_name_def
        path_join_def endswith_def basename_def splitext_root_def)

subsection \<open>The files of a run are independent\<close>















subsection \<open>A shading error\<close>

text \<open>
  Claim C1, as amended. When shade-checking is requested and \<^verbatim>\<open>ParsePolicy\<close> fails with
  \<^verbatim>\<open>ShadingError\<close>, \<^verbatim>\<open>RenderFile\<close> stops compiling the file, logs a warning with the file name
  and the error, schedules nothing and returns normally: the error does not reach the caller,
  and \<^verbatim>\<open>Run\<close> on that file, given as the policy file or discovered as the only one, writes
  nothing and returns without a failure status.
\<close>

theorem ShadingError_is_caught:
  assumes "Naming L definitions_directory = Definitions definitions"
    and "d input_file = Some (Text conf)"
    and "ParsePolicy L conf definitions optimize base_directory True = RaisesShadingError e"
  shows "RenderFile L d base_directory input_file output_directory definitions exp_info
           optimize True write_files
         = ([(DEBUG, ''rendering file: '' @ input_file @ '' into '' @ output_directory),
             (DEBUG, ''opened and read '' @ input_file),
             (WARNING, ''shading errors for '' @ input_file @ '':'' @ [newline] @ e)],
            write_files, None)
         \<and> (input_file \<noteq> [] \<longrightarrow>
              (\<exists>lg. Run L d listing base_directory definitions_directory (Some input_file)
                      output_directory exp_info ignore_directories optimize True
                    = (lg, d, Returns)))
         \<and> (DescendRecursively entries base_directory output_directory ignore_directories 1
               = (found, [(input_file, out_dir)]) \<longrightarrow>
              (\<exists>lg. Run L d (Some entries) base_directory definitions_directory None
                      output_directory exp_info ignore_directories optimize True
                    = (lg, d, Returns)))"
proof -
  have one: "RenderFile L d base_directory input_file dir definitions exp_info
           optimize True wfs
         = ([(DEBUG, ''rendering file: '' @ input_file @ '' into '' @ dir),
             (DEBUG, ''opened and read '' @ input_file),
             (WARNING, ''shading errors for '' @ input_file @ '':'' @ [newline] @ e)],
            wfs, None)" for wfs dir
    by (simp add: RenderFile_def assms(2) assms(3))
  have single: "\<exists>lg. Run L d listing base_directory definitions_directory (Some input_file)
                    output_directory exp_info ignore_directories optimize True
                  = (lg, d, Returns)"
    if "input_file \<noteq> []"
    using that by (simp add: Run_def assms(1) one finish_def WriteFiles_def)
  have pool: "\<exists>lg. Run L d (Some entries) base_directory definitions_directory None
                      output_directory exp_info ignore_directories optimize True
                    = (lg, d, Returns)"
    if "DescendRecursively entries base_directory output_directory ignore_directories 1
        = (found, [(input_file, out_dir)])"
    using that by (simp add: Run_def assms(1) one finish_def WriteFiles_def)
  from one single pool show ?thesis by blast
qed

theorem ShadingError_is_caught_witness:
  "Naming example_lib ''./def'' = Definitions ()
   \<and> example_disk ''./policies/pol/shaded.pol'' = Some (Text ''shaded term'')
   \<and> ParsePolicy example_lib ''shaded term'' () False ''./policies'' True
       = RaisesShadingError ''term-2 is shaded by term-1''
   \<and> DescendRecursively shaded_listing ''./policies'' ''./out'' [] 1
       = ([], [(''./policies/pol/shaded.pol'', ''./out'')])
   \<and> scheduled (RenderFile example_lib example_disk ''./policies'' ''./policies/pol/shaded.pol''
                  ''./out'' () 2 False True []) = []
   \<and> raised (RenderFile example_lib example_disk ''./policies'' ''./policies/pol/shaded.pol''
               ''./out'' () 2 False True []) = None
   \<and> (\<exists>lg. Run example_lib example_disk None ''./policies'' ''./def''
              (Some ''./policies/pol/shaded.pol'') ''./out'' 2 [] False True
            = (lg, example_disk, Returns))
   \<and> (\<exists>lg. Run example_lib example_disk (Some shaded_listing) ''./policies'' ''./def''
              None ''./out'' 2 [] False True
            = (lg, example_disk, Returns))"
proof -
  have naming: "Naming example_lib ''./def'' = Definitions ()"
    by (simp add: example_lib_def)
  have readable: "example_disk ''./policies/pol/shaded.pol'' = Some (Text ''shaded term'')"
    by (simp add: example_disk_def)
  have shaded: "ParsePolicy example_lib ''shaded term'' () False ''./policies'' True
                = RaisesShadingError ''term-2 is shaded by term-1''"
    by (simp add: example_lib_def)
  have discovered: "DescendRecursively shaded_listing ''./policies'' ''./out'' [] 1
               = ([], [(''./policies/pol/shaded.pol'', ''./out'')])"
    by (simp add: DescendRecursively_def shaded_listing_def rstrip_def endswith_def
          path_join_def)
  from ShadingError_is_caught
    [where L = example_lib and d = example_disk and definitions_directory = "''./def''"
       and definitions = "()" and input_file = "''./policies/pol/shaded.pol''"
       and conf = "''shaded term''" and optimize = False and base_directory = "''./policies''"
       and e = "''term-2 is shaded by term-1''" and output_directory = "''./out''"
       and exp_info = 2 and write_files = "[]" and listing = None
       and ignore_directories = "[]" and entries = shaded_listing and found = "[]"
       and out_dir = "''./out''", OF naming readable shaded]
  show ?thesis
    using naming readable shaded discovered by (simp add: scheduled_def raised_def)
qed

text \<open>
  Claim C1 as stated fails: for a policy file whose parse raises \<^verbatim>\<open>ShadingError\<close> under
  shade-checking, the result of the file holds no exception, and \<^verbatim>\<open>Run\<close> over the directory
  with that file returns instead of reporting a failure.
\<close>

theorem ShadingError_reported_counterexample:
  "ParsePolicy example_lib ''shaded term'' () False ''./policies'' True
     = RaisesShadingError ''term-2 is shaded by term-1''
   \<and> raised (file_result example_lib example_disk ''./policies'' () 2 False True
               (''./policies/pol/shaded.pol'', ''./out'')) = None
   \<and> snd (snd (Run example_lib example_disk (Some shaded_listing) ''./policies'' ''./def'' None
                  ''./out'' 2 [] False True)) = Returns"
  by (simp add: Run_def example_lib_def example_disk_def file_result_def RenderFile_def
        raised_def DescendRecursively_def shaded_listing_def rstrip_def endswith_def
        path_join_def finish_def WriteFiles_def)

section \<open>The Palo Alto backend: what is proved\<close>

subsection \<open>Validation against the capability tables\<close>
























subsection \<open>The translation of the filter blocks\<close>















lemmas backend_eval =
  PaloAltoFW_def PLATFORM_def platforms_def FilterOptions_def term_tokens_def
  SUPPORTED_TOKENS_def SUPPORTED_SUB_TOKENS_def check_zones_def ZONE_MAX_LENGTH_def
  header_tag_def tag_key_def omitted_def applies_def icmp_type_without_icmp_def attr_def
  render_term_def decimal.simps Let_def

subsection \<open>Tags from header comments\<close>





subsection \<open>Terms that a stateful backend leaves out\<close>






subsection \<open>The length of zone names\<close>





subsection \<open>The ICMP terms of the tests\<close>

text \<open>
  The constructor on the policies of \<^verbatim>\<open>testBadICMP\<close>, \<^verbatim>\<open>testIcmpTypes\<close> and
  \<^verbatim>\<open>testICMPProtocolOnly\<close>: the first raises \<open>UnsupportedFilterError\<close>, the other two build a
  rule of the term's name.
\<close>

lemma testBadICMP:
  "PaloAltoFW [(GOOD_HEADER_1, [BAD_ICMP_TERM_1])] 2
   = Inl (UnsupportedFilterError ''test-icmp-type'' ''icmp_type''
            [''echo-request'', ''echo-reply''])"
  by (simp add: backend_eval GOOD_HEADER_1_def BAD_ICMP_TERM_1_def)

lemma testIcmpTypes:
  "\<exists>cfg. PaloAltoFW [(GOOD_HEADER_1, [ICMP_TYPE_TERM_1])] 2 = Inr cfg
         \<and> map rule_name (rules cfg) = [''test-icmp'']"
  by (simp add: backend_eval GOOD_HEADER_1_def ICMP_TYPE_TERM_1_def)

lemma testICMPProtocolOnly:
  "\<exists>cfg. PaloAltoFW [(GOOD_HEADER_1, [ICMP_ONLY_TERM_1])] 2 = Inr cfg
         \<and> map rule_name (rules cfg) = [''test-icmp-only'']"
  by (simp add: backend_eval GOOD_HEADER_1_def ICMP_ONLY_TERM_1_def)

end
